theory Spec2Isabelle
  imports Main "HOL-Library.Sublist" "HOL-Library.AList"
begin

section \<open>Python values\<close>

text \<open>
  The program is \<^verbatim>\<open>src/app.py\<close>: a Streamlit page that loads three spreadsheets into
  pandas frames, filters them by a material code (\<^verbatim>\<open>analyze_material_data\<close>), composes a
  prompt (\<^verbatim>\<open>create_analysis_prompt\<close>, and the general prompt inside \<^verbatim>\<open>main\<close>) and sends
  it to a language model (\<^verbatim>\<open>ask_llm_simple\<close>).

  A \<^typ>\<open>char\<close> stands for one code point in the range 0 to 255, a \<^typ>\<open>string\<close> for a
  Python \<^verbatim>\<open>str\<close> over these code points.

  A cell of a frame is a missing value (\<open>NaN\<close> for an empty spreadsheet cell, \<open>NaT\<close> in a
  date column, \<open>PyNone\<close>), a boolean, an integer or a string. Cells that hold floats other
  than \<open>NaN\<close>, or timestamps, are outside the model.
\<close>

datatype cell = NaN | NaT | PyNone | PyBool bool | PyInt int | PyStr string

text \<open>\<^verbatim>\<open>pd.isna\<close>: the missing values.\<close>

fun isna :: "cell \<Rightarrow> bool" where
  "isna NaN = True"
| "isna NaT = True"
| "isna PyNone = True"
| "isna (PyBool b) = False"
| "isna (PyInt i) = False"
| "isna (PyStr s) = False"

text \<open>
  Exceptions derived from \<^verbatim>\<open>Exception\<close>, each with the text \<^verbatim>\<open>str(e)\<close> gives:
  \<^verbatim>\<open>re.error\<close>, and any other. Interrupts (\<^verbatim>\<open>KeyboardInterrupt\<close>, \<^verbatim>\<open>SystemExit\<close>) are
  not modelled.
\<close>

datatype exn = re_error string | Exception string

fun exn_str :: "exn \<Rightarrow> string" where
  "exn_str (re_error m) = m"
| "exn_str (Exception m) = m"

text \<open>What a call does: it returns a value or raises.\<close>

datatype 'a outcome = Returned 'a | Raised exn

subsection \<open>\<^verbatim>\<open>str\<close> of a cell\<close>

fun str_nat :: "nat \<Rightarrow> string" where
  "str_nat n =
     (if n < 10 then [char_of (48 + n)]
      else str_nat (n div 10) @ [char_of (48 + n mod 10)])"

declare str_nat.simps [simp del]

definition str_int :: "int \<Rightarrow> string" where
  "str_int i = (if i < 0 then CHR ''-'' # str_nat (nat (- i)) else str_nat (nat i))"

text \<open>
  \<^verbatim>\<open>DataFrame.astype(str)\<close> of pandas 1 and 2 calls \<^verbatim>\<open>str\<close> on every cell, the missing
  ones included: an empty spreadsheet cell becomes the three letters \<^verbatim>\<open>nan\<close>. These are
  the versions the model follows: the program names the model \<^verbatim>\<open>gpt-5\<close>, of 2025, when
  pandas 2 was current and Streamlit asked for a pandas below 3. (From pandas 3 on,
  \<^verbatim>\<open>astype(str)\<close> leaves a missing cell missing.)
\<close>

fun py_str :: "cell \<Rightarrow> string" where
  "py_str NaN = ''nan''"
| "py_str NaT = ''NaT''"
| "py_str PyNone = ''None''"
| "py_str (PyBool b) = (if b then ''True'' else ''False'')"
| "py_str (PyInt i) = str_int i"
| "py_str (PyStr s) = s"

section \<open>Regular expressions: \<^verbatim>\<open>re.compile(pat, re.IGNORECASE)\<close> and \<^verbatim>\<open>search\<close>\<close>

text \<open>
  \<^verbatim>\<open>Series.str.contains(pat, case=False, na=False)\<close> is called without \<^verbatim>\<open>regex=False\<close>, so
  pandas takes \<open>pat\<close> as a regular expression: it compiles it with \<^verbatim>\<open>re.IGNORECASE\<close> and
  tests each string with \<^verbatim>\<open>search\<close>.

  A compiled pattern is known by what its \<^verbatim>\<open>search\<close> finds: the set of strings with a
  match. Two parts of the pattern syntax are written out:
  \<^item> a pattern whose first character is a repetition operator (\<^verbatim>\<open>*\<close>, \<^verbatim>\<open>+\<close>, \<^verbatim>\<open>?\<close>) is
    rejected by \<^verbatim>\<open>re.compile\<close> (\<^verbatim>\<open>re.error: nothing to repeat at position 0\<close>);
  \<^item> a pattern made of ordinary characters and dots compiles to a sequence of atoms: an
    ordinary character matches itself up to case, a dot matches every character but
    the line feed.
  What \<^verbatim>\<open>re.compile\<close> does with any other pattern (one with another special character
  in it) is the parameter \<open>re_other\<close> of the model: the theorems hold whatever it is.
\<close>

type_synonym pattern = "string \<Rightarrow> bool"

definition special_chars :: "char list" where
  "special_chars = ''.^$*+?{}[]|()'' @ [CHR 0x5C]"

definition repeat_chars :: "char list" where
  "repeat_chars = ''*+?''"

text \<open>
  \<^verbatim>\<open>re.IGNORECASE\<close> compares the lower-case forms of two characters. On the code points 0
  to 255 the lower-case form differs from the character for A to Z and for the
  capital letters 192 to 222 of Latin-1 (215, the multiplication sign, is no letter).
\<close>

definition lower :: "char \<Rightarrow> char" where
  "lower c =
     (let n = (of_char c :: nat)
      in if (65 \<le> n \<and> n \<le> 90) \<or> (192 \<le> n \<and> n \<le> 222 \<and> n \<noteq> 215)
         then char_of (n + 32) else c)"

datatype atom = Lit char | AnyChar

definition parse_atom :: "char \<Rightarrow> atom" where
  "parse_atom c = (if c = CHR ''.'' then AnyChar else Lit (lower c))"

definition ordinary_or_dot :: "char \<Rightarrow> bool" where
  "ordinary_or_dot c = (c = CHR ''.'' \<or> c \<notin> set special_chars)"

fun atom_matches :: "atom \<Rightarrow> char \<Rightarrow> bool" where
  "atom_matches (Lit c) d = (lower d = c)"
| "atom_matches AnyChar d = (d \<noteq> CHR 0x0A)"

text \<open>The atoms match a prefix of the string.\<close>

fun match_here :: "atom list \<Rightarrow> string \<Rightarrow> bool" where
  "match_here [] s = True"
| "match_here (a # as) [] = False"
| "match_here (a # as) (d # ds) = (atom_matches a d \<and> match_here as ds)"

text \<open>\<^verbatim>\<open>search\<close>: the atoms match at some position of the string.\<close>

fun re_search :: "atom list \<Rightarrow> string \<Rightarrow> bool" where
  "re_search r [] = match_here r []"
| "re_search r (d # ds) = (match_here r (d # ds) \<or> re_search r ds)"

fun re_compile :: "(string \<Rightarrow> pattern outcome) \<Rightarrow> string \<Rightarrow> pattern outcome" where
  "re_compile re_other [] = Returned (re_search [])"
| "re_compile re_other (c # cs) =
     (if c \<in> set repeat_chars then Raised (re_error ''nothing to repeat at position 0'')
      else if list_all ordinary_or_dot (c # cs) then Returned (re_search (map parse_atom (c # cs)))
      else re_other (c # cs))"

text \<open>
  The specification's test, in its own words: the string \<open>s\<close> contains the token \<open>t\<close> as
  a substring, case ignored.
\<close>

definition contains_ignoring_case :: "string \<Rightarrow> string \<Rightarrow> bool" where
  "contains_ignoring_case t s = sublist (map lower t) (map lower s)"

section \<open>Frames\<close>

text \<open>
  A \<^verbatim>\<open>DataFrame\<close>: its column labels and its rows in order, each row holding one cell
  per column. The row labels are those \<^verbatim>\<open>read_excel\<close> gives (0, 1, 2, ...), so a row is
  known by its position.
\<close>

record dataframe =
  columns :: "string list"
  rows :: "cell list list"

definition wf_frame :: "dataframe \<Rightarrow> bool" where
  "wf_frame df = list_all (\<lambda>r. length r = length (columns df)) (rows df)"

text \<open>A \<^verbatim>\<open>Series\<close> is a list of cells; \<open>column j df\<close> is the \<open>j\<close>-th column of a frame.\<close>

definition column :: "nat \<Rightarrow> dataframe \<Rightarrow> cell list" where
  "column j df = map (\<lambda>r. r ! j) (rows df)"

definition astype_str :: "dataframe \<Rightarrow> dataframe" where
  "astype_str df = df\<lparr>rows := map (map (\<lambda>c. PyStr (py_str c))) (rows df)\<rparr>"

text \<open>
  \<^verbatim>\<open>x.str.contains(pat, case=False, na=False)\<close> on a column of an object frame: the pattern
  is compiled first, then each string is searched; a cell that is no string counts as
  missing and gets the value of \<^verbatim>\<open>na\<close>.
\<close>

fun contains_cell :: "pattern \<Rightarrow> cell \<Rightarrow> cell" where
  "contains_cell r (PyStr s) = PyBool (r s)"
| "contains_cell r c = PyBool False"

definition str_contains ::
  "(string \<Rightarrow> pattern outcome) \<Rightarrow> string \<Rightarrow> cell list \<Rightarrow> cell list outcome" where
  "str_contains re_other pat x =
     (case re_compile re_other pat of
        Returned r \<Rightarrow> Returned (map (contains_cell r) x)
      | Raised e \<Rightarrow> Raised e)"

text \<open>Calls in a row: the first that does not return decides.\<close>

fun all_returned :: "'a outcome list \<Rightarrow> 'a list outcome" where
  "all_returned [] = Returned []"
| "all_returned (Returned x # os) =
     (case all_returned os of
        Returned xs \<Rightarrow> Returned (x # xs)
      | Raised e \<Rightarrow> Raised e)"
| "all_returned (Raised e # os) = Raised e"

text \<open>
  \<^verbatim>\<open>DataFrame.apply(f)\<close> with a function from columns to columns. A frame with no row or
  no column is returned as a copy and \<open>f\<close> never sees a column of it (pandas tries \<open>f\<close>
  on an empty float column and ignores the exception that gives). Otherwise \<open>f\<close> is
  called on each column from left to right, and the results are the columns of the new
  frame.
\<close>

definition df_apply :: "(cell list \<Rightarrow> cell list outcome) \<Rightarrow> dataframe \<Rightarrow> dataframe outcome" where
  "df_apply f df =
     (if rows df = [] \<or> columns df = [] then Returned df
      else case all_returned (map (\<lambda>j. f (column j df)) [0..<length (columns df)]) of
             Returned cs \<Rightarrow>
               Returned (df\<lparr>rows := map (\<lambda>i. map (\<lambda>c. c ! i) cs) [0..<length (rows df)]\<rparr>)
           | Raised e \<Rightarrow> Raised e)"

text \<open>\<^verbatim>\<open>DataFrame.any(axis=1)\<close> of a frame of booleans: one boolean per row.\<close>

definition any_axis1 :: "dataframe \<Rightarrow> bool list" where
  "any_axis1 df = map (\<lambda>r. list_ex (\<lambda>c. c = PyBool True) r) (rows df)"

text \<open>\<^verbatim>\<open>df[mask]\<close> with one boolean per row: the rows whose boolean is true, in order.\<close>

definition getitem_mask :: "dataframe \<Rightarrow> bool list \<Rightarrow> dataframe" where
  "getitem_mask df keep = df\<lparr>rows := map fst (filter snd (zip (rows df) keep))\<rparr>"

definition head :: "nat \<Rightarrow> dataframe \<Rightarrow> dataframe" where
  "head n df = df\<lparr>rows := take n (rows df)\<rparr>"

text \<open>
  A Python \<^verbatim>\<open>dict\<close> built from pairs keeps the keys in the order of their first
  insertion and, for a key given twice, the last value.
\<close>

type_synonym py_dict = "(string \<times> cell) list"

definition dict_of :: "(string \<times> cell) list \<Rightarrow> py_dict" where
  "dict_of kvs = fold (\<lambda>kv d. AList.update (fst kv) (snd kv) d) kvs []"

text \<open>\<^verbatim>\<open>df.to_dict('records')\<close>: one dict per row, from column label to cell.\<close>

definition record_of :: "string list \<Rightarrow> cell list \<Rightarrow> py_dict" where
  "record_of cols r = dict_of (zip cols r)"

definition to_dict_records :: "dataframe \<Rightarrow> py_dict list" where
  "to_dict_records df = map (record_of (columns df)) (rows df)"

section \<open>The heap of frames\<close>

text \<open>
  Frames are objects: the program holds references to them, and every pandas call above
  builds a new frame. The heap lists the frames that exist; a reference is a position
  in it.
\<close>

type_synonym ref = nat
type_synonym heap = "dataframe list"

definition new_frame :: "dataframe \<Rightarrow> heap \<Rightarrow> ref \<times> heap" where
  "new_frame df h = (length h, h @ [df])"

section \<open>The filter: \<^verbatim>\<open>analyze_material_data\<close>\<close>

text \<open>
  The expression the function evaluates for each table,
  \<^verbatim>\<open>df[df.astype(str).apply(lambda x: x.str.contains(str(material_code), case=False, na=False)).any(axis=1)]\<close>:
  the frame of strings, the frame of booleans and the selected rows are new frames.
  \<^verbatim>\<open>str(material_code)\<close> is the code itself, a string already.
\<close>

definition material_rows ::
  "(string \<Rightarrow> pattern outcome) \<Rightarrow> string \<Rightarrow> ref \<Rightarrow> heap \<Rightarrow> ref outcome \<times> heap" where
  "material_rows re_other material_code df h =
     (let (s, h1) = new_frame (astype_str (h ! df)) h
      in case df_apply (str_contains re_other material_code) (h1 ! s) of
           Raised e \<Rightarrow> (Raised e, h1)
         | Returned b \<Rightarrow>
             (let (m, h2) = new_frame b h1;
                  (d, h3) = new_frame (getitem_mask (h2 ! df) (any_axis1 (h2 ! m))) h2
              in (Returned d, h3)))"

record entry =
  count :: nat
  data :: "py_dict list"

text \<open>The dict \<^verbatim>\<open>analysis_data\<close>, from table name to entry.\<close>

type_synonym analysis = "(string \<times> entry) list"

text \<open>
  One of the three stanzas of the function: a table that is \<^verbatim>\<open>None\<close> is skipped;
  otherwise its matching rows are selected and stored under \<open>key\<close> with their number.
\<close>

definition table_entry :: "dataframe \<Rightarrow> entry" where
  "table_entry d =
     \<lparr>count = length (rows d),
      data = (if length (rows d) > 0 then to_dict_records d else [])\<rparr>"

definition table_analysis ::
  "(string \<Rightarrow> pattern outcome) \<Rightarrow> string \<Rightarrow> string \<Rightarrow> ref option \<Rightarrow> analysis \<Rightarrow> heap \<Rightarrow>
   analysis outcome \<times> heap" where
  "table_analysis re_other key material_code df analysis_data h =
     (case df of
        None \<Rightarrow> (Returned analysis_data, h)
      | Some r \<Rightarrow>
          (case material_rows re_other material_code r h of
             (Returned d, h') \<Rightarrow>
               (Returned (AList.update key (table_entry (h' ! d)) analysis_data), h')
           | (Raised e, h') \<Rightarrow> (Raised e, h')))"

definition and_then ::
  "(heap \<Rightarrow> 'a outcome \<times> heap) \<Rightarrow> ('a \<Rightarrow> heap \<Rightarrow> 'b outcome \<times> heap) \<Rightarrow> heap \<Rightarrow> 'b outcome \<times> heap" where
  "and_then p q h =
     (case p h of
        (Returned x, h') \<Rightarrow> q x h'
      | (Raised e, h') \<Rightarrow> (Raised e, h'))"

definition analyze_material_data ::
  "(string \<Rightarrow> pattern outcome) \<Rightarrow> string \<Rightarrow> ref option \<Rightarrow> ref option \<Rightarrow> ref option \<Rightarrow> heap \<Rightarrow>
   analysis outcome \<times> heap" where
  "analyze_material_data re_other material_code sales_df production_df reservations_df =
     and_then (table_analysis re_other ''sales'' material_code sales_df [])
       (\<lambda>analysis_data.
          and_then
            (table_analysis re_other ''production'' material_code production_df analysis_data)
            (\<lambda>analysis_data.
               table_analysis re_other ''reservations'' material_code reservations_df
                 analysis_data))"

section \<open>The prompts\<close>

subsection \<open>\<^verbatim>\<open>repr\<close> and the values an f-string prints\<close>

text \<open>
  \<^verbatim>\<open>repr\<close> of a string picks the double quote when the string has a single quote and no
  double quote, and the single quote otherwise; it escapes the quote, the backslash,
  tab, line feed and carriage return, and writes every other character that is not
  printable (below 32, 127 to 160, 173) as \<^verbatim>\<open>\xhh\<close>.
\<close>

definition hex_digit :: "nat \<Rightarrow> char" where
  "hex_digit n = (if n < 10 then char_of (48 + n) else char_of (87 + n))"

definition repr_char :: "char \<Rightarrow> char \<Rightarrow> string" where
  "repr_char quote ch =
     (let n = (of_char ch :: nat)
      in if ch = quote \<or> ch = CHR 0x5C then [CHR 0x5C, ch]
         else if ch = CHR 0x09 then [CHR 0x5C, CHR ''t'']
         else if ch = CHR 0x0A then [CHR 0x5C, CHR ''n'']
         else if ch = CHR 0x0D then [CHR 0x5C, CHR ''r'']
         else if n < 32 \<or> n = 127 \<or> (128 \<le> n \<and> n \<le> 160) \<or> n = 173
           then [CHR 0x5C, CHR ''x'', hex_digit (n div 16), hex_digit (n mod 16)]
         else [ch])"

definition repr_str :: "string \<Rightarrow> string" where
  "repr_str s =
     (let quote = (if CHR 0x27 \<in> set s \<and> CHR 0x22 \<notin> set s then CHR 0x22 else CHR 0x27)
      in quote # concat (map (repr_char quote) s) @ [quote])"

text \<open>
  \<^verbatim>\<open>repr\<close> of a cell as \<^verbatim>\<open>to_dict('records')\<close> hands it out: a string in quotes, every
  other cell as \<^verbatim>\<open>str\<close> prints it.
\<close>

fun py_repr :: "cell \<Rightarrow> string" where
  "py_repr (PyStr s) = repr_str s"
| "py_repr c = py_str c"

fun join :: "string \<Rightarrow> string list \<Rightarrow> string" where
  "join sep [] = []"
| "join sep [x] = x"
| "join sep (x # y # ys) = x @ sep @ join sep (y # ys)"

definition repr_list :: "string list \<Rightarrow> string" where
  "repr_list items = ''['' @ join '', '' items @ '']''"

definition repr_dict :: "py_dict \<Rightarrow> string" where
  "repr_dict d = ''{'' @ join '', '' (map (\<lambda>kv. repr_str (fst kv) @ '': '' @ py_repr (snd kv)) d) @ ''}''"

definition repr_records :: "py_dict list \<Rightarrow> string" where
  "repr_records ds = repr_list (map repr_dict ds)"

definition repr_columns :: "string list \<Rightarrow> string" where
  "repr_columns cs = repr_list (map repr_str cs)"

text \<open>
  \<^verbatim>\<open>analysis_data.get(key, {}).get('count', 0)\<close> and
  \<^verbatim>\<open>analysis_data.get(key, {}).get('data', [])\<close>.
\<close>

definition get_count :: "analysis \<Rightarrow> string \<Rightarrow> nat" where
  "get_count analysis_data key = (case map_of analysis_data key of None \<Rightarrow> 0 | Some e \<Rightarrow> count e)"

definition get_data :: "analysis \<Rightarrow> string \<Rightarrow> py_dict list" where
  "get_data analysis_data key = (case map_of analysis_data key of None \<Rightarrow> [] | Some e \<Rightarrow> data e)"

subsection \<open>The two f-strings\<close>

text \<open>
  The text both prompts share (lines 74 to 97 and 351 to 374 of the source), then the
  f-string of \<^verbatim>\<open>create_analysis_prompt\<close> and the f-string \<^verbatim>\<open>general_prompt\<close> of \<^verbatim>\<open>main\<close>,
  each as a function of the values its braces print, one list element per line of the
  source.
\<close>

definition field_definitions :: string where
  "field_definitions =
     concat
       [''FIELD DEFINITIONS FOR CONTEXT:\<newline>'',
        ''\<newline>'',
        ''RESERVATIONS DATA (RESB table):\<newline>'',
        ''- RSPOS: Reservation Item\<newline>'',
        ''- AUFNR: Production Order Number (The key link!)\<newline>'',
        ''- MATNR: Component Material (the one being consumed)\<newline>'',
        ''- BDMNG: Reserved Quantity\<newline>'',
        ''- MEINS: Unit of Measure for the component\<newline>'',
        ''\<newline>'',
        ''PRODUCTION DATA (AFKO table):\<newline>'',
        ''- AUFNR: Production Order Number (links with reservations)\<newline>'',
        ''- PLNBEZ: Material to be Produced (the finished product)\<newline>'',
        ''- GAMNG: Total order quantity (of the finished product)\<newline>'',
        ''- GMEIN: Unit of Measure for the order (of the finished product)\<newline>'',
        ''- GSTRP: Basic start date\<newline>'',
        ''- GLTRP: Basic finish date\<newline>'',
        ''\<newline>'',
        ''SALES DATA (VBAP table):\<newline>'',
        ''- VBELN: Sales Document Number (sales order)\<newline>'',
        ''- POSNR: Sales Document Item\<newline>'',
        ''- MATNR: Material Number\<newline>'',
        ''- KWMENG: Sales Quantity (of the finished product)\<newline>'',
        ''- VRKME: Sales Unit of Measure\<newline>'',
        ''- NETWR: Net value of the item\<newline>'']"

definition analysis_prompt_text ::
  "string \<Rightarrow> analysis \<Rightarrow> string list \<Rightarrow> string list \<Rightarrow> string list \<Rightarrow>
   py_dict list \<Rightarrow> py_dict list \<Rightarrow> py_dict list \<Rightarrow> string" where
  "analysis_prompt_text material_code analysis_data sales_columns production_columns
     reservations_columns sales_sample production_sample reservations_sample =
     concat
       [''\<newline>'',
        ''You are an expert SAP data analyst specializing in supply chain and production analysis. \<newline>'',
        ''\<newline>'',
        field_definitions,
        ''\<newline>'',
        ''ANALYSIS REQUEST FOR MATERIAL: '',
        material_code,
        ''\<newline>'',
        ''\<newline>'',
        ''CURRENT DATASET INFORMATION:\<newline>'',
        ''\<newline>'',
        ''SALES DATA ('',
        str_nat (get_count analysis_data ''sales''),
        '' records found for material '',
        material_code,
        ''):\<newline>'',
        ''Available columns: '',
        repr_columns sales_columns,
        ''\<newline>'',
        ''Sample of full dataset (first 5 rows): '',
        repr_records sales_sample,
        ''\<newline>'',
        ''Filtered data for material '',
        material_code,
        '': '',
        repr_records (get_data analysis_data ''sales''),
        ''\<newline>'',
        ''\<newline>'',
        ''PRODUCTION DATA ('',
        str_nat (get_count analysis_data ''production''),
        '' records found for material '',
        material_code,
        ''):\<newline>'',
        ''Available columns: '',
        repr_columns production_columns,
        ''\<newline>'',
        ''Sample of full dataset (first 5 rows): '',
        repr_records production_sample,
        ''\<newline>'',
        ''Filtered data for material '',
        material_code,
        '': '',
        repr_records (get_data analysis_data ''production''),
        ''\<newline>'',
        ''\<newline>'',
        ''RESERVATIONS DATA ('',
        str_nat (get_count analysis_data ''reservations''),
        '' records found for material '',
        material_code,
        ''):\<newline>'',
        ''Available columns: '',
        repr_columns reservations_columns,
        ''\<newline>'',
        ''Sample of full dataset (first 5 rows): '',
        repr_records reservations_sample,
        ''\<newline>'',
        ''Filtered data for material '',
        material_code,
        '': '',
        repr_records (get_data analysis_data ''reservations''),
        ''\<newline>'',
        ''\<newline>'',
        ''Please provide a comprehensive analysis including:\<newline>'',
        ''1. Summary of sales performance and quantities for this material\<newline>'',
        ''2. Production orders status and quantities (linking via AUFNR when possible)\<newline>'',
        ''3. Reservation status and component consumption\<newline>'',
        ''4. Cross-reference analysis: How do sales orders relate to production orders and material reservations?\<newline>'',
        ''5. Risk analysis: Could sales orders be affected by reservation shortages or production delays?\<newline>'',
        ''6. Timeline analysis using start dates (GSTRP) and finish dates (GLTRP)\<newline>'',
        ''7. Recommendations for supply chain optimization\<newline>'',
        ''\<newline>'',
        ''Focus on the relationships between AUFNR (production orders), MATNR (materials), quantities (BDMNG, GAMNG, KWMENG), and dates.\<newline>'']"

definition general_prompt_text ::
  "string \<Rightarrow> nat \<Rightarrow> nat \<Rightarrow> string list \<Rightarrow> py_dict list \<Rightarrow>
   nat \<Rightarrow> nat \<Rightarrow> string list \<Rightarrow> py_dict list \<Rightarrow>
   nat \<Rightarrow> nat \<Rightarrow> string list \<Rightarrow> py_dict list \<Rightarrow> string" where
  "general_prompt_text user_query
     sales_rows sales_width sales_columns sales_sample
     production_rows production_width production_columns production_sample
     reservations_rows reservations_width reservations_columns reservations_sample =
     concat
       [''\<newline>'',
        ''You are an expert SAP data analyst specializing in supply chain and production analysis.\<newline>'',
        ''\<newline>'',
        field_definitions,
        ''\<newline>'',
        ''CURRENT DATASETS:\<newline>'',
        ''\<newline>'',
        ''SALES DATA: '',
        str_nat sales_rows,
        '' rows, '',
        str_nat sales_width,
        '' columns\<newline>'',
        ''Available columns: '',
        repr_columns sales_columns,
        ''\<newline>'',
        ''Sample data (first 5 rows): '',
        repr_records sales_sample,
        ''\<newline>'',
        ''\<newline>'',
        ''PRODUCTION DATA: '',
        str_nat production_rows,
        '' rows, '',
        str_nat production_width,
        '' columns\<newline>'',
        ''Available columns: '',
        repr_columns production_columns,
        ''\<newline>'',
        ''Sample data (first 5 rows): '',
        repr_records production_sample,
        ''\<newline>'',
        ''\<newline>'',
        ''RESERVATIONS DATA: '',
        str_nat reservations_rows,
        '' rows, '',
        str_nat reservations_width,
        '' columns\<newline>'',
        ''Available columns: '',
        repr_columns reservations_columns,
        ''\<newline>'',
        ''Sample data (first 5 rows): '',
        repr_records reservations_sample,
        ''\<newline>'',
        ''\<newline>'',
        ''USER QUESTION: '',
        user_query,
        ''\<newline>'',
        ''\<newline>'',
        ''Please provide a comprehensive analysis and answer based on:\<newline>'',
        ''1. The SAP field definitions above\<newline>'',
        ''2. The actual data structure and sample records\<newline>'',
        ''3. Relationships between tables (especially via AUFNR and MATNR)\<newline>'',
        ''4. Focus on quantities, dates, and business implications\<newline>'',
        ''5. Include specific recommendations and insights where appropriate\<newline>'',
        ''\<newline>'',
        ''Analyze the data relationships and provide actionable insights for supply chain optimization.\<newline>'']"

subsection \<open>\<^verbatim>\<open>create_analysis_prompt\<close> and the general prompt of \<^verbatim>\<open>main\<close>\<close>

text \<open>
  \<^verbatim>\<open>df.head(5).to_dict('records')\<close> builds a new frame of the first five rows and lists
  its rows; \<^verbatim>\<open>create_analysis_prompt\<close> takes the empty list for a table that is \<^verbatim>\<open>None\<close>.
\<close>

definition head5_records :: "ref \<Rightarrow> heap \<Rightarrow> py_dict list \<times> heap" where
  "head5_records df h =
     (let (s, h1) = new_frame (head 5 (h ! df)) h in (to_dict_records (h1 ! s), h1))"

definition sample_or_empty :: "ref option \<Rightarrow> heap \<Rightarrow> py_dict list \<times> heap" where
  "sample_or_empty df h = (case df of None \<Rightarrow> ([], h) | Some r \<Rightarrow> head5_records r h)"

definition columns_list :: "ref option \<Rightarrow> heap \<Rightarrow> string list" where
  "columns_list df h = (case df of None \<Rightarrow> [] | Some r \<Rightarrow> columns (h ! r))"

definition create_analysis_prompt ::
  "string \<Rightarrow> analysis \<Rightarrow> ref option \<Rightarrow> ref option \<Rightarrow> ref option \<Rightarrow> heap \<Rightarrow> string \<times> heap" where
  "create_analysis_prompt material_code analysis_data sales_df production_df reservations_df h =
     (let (sales_sample, h1) = sample_or_empty sales_df h;
          (production_sample, h2) = sample_or_empty production_df h1;
          (reservations_sample, h3) = sample_or_empty reservations_df h2
      in (analysis_prompt_text material_code analysis_data
            (columns_list sales_df h3) (columns_list production_df h3)
            (columns_list reservations_df h3)
            sales_sample production_sample reservations_sample,
          h3))"

text \<open>
  The general prompt is built inside \<^verbatim>\<open>main\<close>, after the check that all three tables
  are loaded, from the tables of the session state: the braces are evaluated from left
  to right, so each sample is taken after the shape and the columns of its table.
\<close>

definition general_prompt ::
  "string \<Rightarrow> ref \<Rightarrow> ref \<Rightarrow> ref \<Rightarrow> heap \<Rightarrow> string \<times> heap" where
  "general_prompt user_query sales_df production_df reservations_df h =
     (let (sales_sample, h1) = head5_records sales_df h;
          (production_sample, h2) = head5_records production_df h1;
          (reservations_sample, h3) = head5_records reservations_df h2
      in (general_prompt_text user_query
            (length (rows (h ! sales_df))) (length (columns (h ! sales_df)))
            (columns (h ! sales_df)) sales_sample
            (length (rows (h1 ! production_df))) (length (columns (h1 ! production_df)))
            (columns (h1 ! production_df)) production_sample
            (length (rows (h2 ! reservations_df))) (length (columns (h2 ! reservations_df)))
            (columns (h2 ! reservations_df)) reservations_sample,
          h3))"

section \<open>The client: \<^verbatim>\<open>ask_llm_simple\<close>\<close>

text \<open>
  \<open>proxy_client\<close> is the module's global: \<^verbatim>\<open>None\<close> when \<^verbatim>\<open>get_proxy_client\<close> raised at
  start-up. \<open>invoke c prompt\<close> stands for the body of the \<^verbatim>\<open>try\<close> block,
  \<^verbatim>\<open>ChatOpenAI(proxy_model_name="gpt-5", proxy_client=c).invoke(prompt).content\<close>: the
  library and the network decide whether it returns the reply (\<open>Inr\<close>) or raises
  (\<open>Inl\<close>).
\<close>

definition ask_llm_simple ::
  "'c option \<Rightarrow> ('c \<Rightarrow> string \<Rightarrow> exn + string) \<Rightarrow> string \<Rightarrow> exn + string" where
  "ask_llm_simple proxy_client invoke prompt =
     (case proxy_client of
        None \<Rightarrow> Inr ''GenAI Hub is not available. Please check your configuration.''
      | Some c \<Rightarrow>
          (case invoke c prompt of
             Inr response \<Rightarrow> Inr response
           | Inl e \<Rightarrow> Inr (''Error querying LLM: '' @ exn_str e)))"

section \<open>What the filter computes, apart from the heap\<close>

text \<open>
  The definitions of this section are not in the program: they name what the lemmas
  below show its calls to compute.

  The frame the filter expression selects from a frame, and the frames it builds on
  the way.
\<close>

definition selected_rows ::
  "(string \<Rightarrow> pattern outcome) \<Rightarrow> string \<Rightarrow> dataframe \<Rightarrow> dataframe outcome" where
  "selected_rows lib t df =
     (case df_apply (str_contains lib t) (astype_str df) of
        Returned b \<Rightarrow> Returned (getitem_mask df (any_axis1 b))
      | Raised e \<Rightarrow> Raised e)"

definition new_frames ::
  "(string \<Rightarrow> pattern outcome) \<Rightarrow> string \<Rightarrow> dataframe \<Rightarrow> dataframe list" where
  "new_frames lib t df =
     (case df_apply (str_contains lib t) (astype_str df) of
        Returned b \<Rightarrow> [astype_str df, b, getitem_mask df (any_axis1 b)]
      | Raised e \<Rightarrow> [astype_str df])"

definition ref_of :: "heap \<Rightarrow> dataframe outcome \<Rightarrow> ref outcome" where
  "ref_of h d = (case d of Returned x \<Rightarrow> Returned (length h + 2) | Raised e \<Rightarrow> Raised e)"

text \<open>One stanza and the whole function, on the frames themselves.\<close>

definition table_result ::
  "(string \<Rightarrow> pattern outcome) \<Rightarrow> string \<Rightarrow> string \<Rightarrow> dataframe option \<Rightarrow> analysis \<Rightarrow>
   analysis outcome" where
  "table_result lib key t df ad =
     (case df of
        None \<Rightarrow> Returned ad
      | Some f \<Rightarrow>
          (case selected_rows lib t f of
             Returned d \<Rightarrow> Returned (AList.update key (table_entry d) ad)
           | Raised e \<Rightarrow> Raised e))"

definition table_frames ::
  "(string \<Rightarrow> pattern outcome) \<Rightarrow> string \<Rightarrow> dataframe option \<Rightarrow> dataframe list" where
  "table_frames lib t df = (case df of None \<Rightarrow> [] | Some f \<Rightarrow> new_frames lib t f)"

definition analysis_of ::
  "(string \<Rightarrow> pattern outcome) \<Rightarrow> string \<Rightarrow> dataframe option \<Rightarrow> dataframe option \<Rightarrow>
   dataframe option \<Rightarrow> analysis outcome" where
  "analysis_of lib t s p r =
     (case table_result lib ''sales'' t s [] of
        Returned ad1 \<Rightarrow>
          (case table_result lib ''production'' t p ad1 of
             Returned ad2 \<Rightarrow> table_result lib ''reservations'' t r ad2
           | Raised e \<Rightarrow> Raised e)
      | Raised e \<Rightarrow> Raised e)"

fun entry_for ::
  "(string \<Rightarrow> pattern outcome) \<Rightarrow> string \<Rightarrow> dataframe option \<Rightarrow> entry option" where
  "entry_for lib t None = None"
| "entry_for lib t (Some f) =
     (case selected_rows lib t f of
        Returned d \<Rightarrow> Some (table_entry d)
      | Raised e \<Rightarrow> None)"

text \<open>
  A reference is valid in a heap when it is \<^verbatim>\<open>None\<close> or points into the heap; \<open>wf_ref\<close>
  asks in addition that the frame it points to has one cell per column in every row.
\<close>

definition valid_ref :: "heap \<Rightarrow> ref option \<Rightarrow> bool" where
  "valid_ref h a = (case a of None \<Rightarrow> True | Some r \<Rightarrow> r < length h)"

definition frame_at :: "heap \<Rightarrow> ref option \<Rightarrow> dataframe option" where
  "frame_at h a = map_option (\<lambda>r. h ! r) a"

definition wf_ref :: "heap \<Rightarrow> ref option \<Rightarrow> bool" where
  "wf_ref h a = (case a of None \<Rightarrow> True | Some r \<Rightarrow> r < length h \<and> wf_frame (h ! r))"

text \<open>
  A row matches a compiled pattern when the search succeeds on the text of one of its
  cells; a row is selected for a token when the token compiles and the row matches.
\<close>

definition row_matches :: "pattern \<Rightarrow> cell list \<Rightarrow> bool" where
  "row_matches r row = list_ex (\<lambda>c. r (py_str c)) row"

definition row_selected :: "(string \<Rightarrow> pattern outcome) \<Rightarrow> string \<Rightarrow> cell list \<Rightarrow> bool" where
  "row_selected lib t row =
     (case re_compile lib t of
        Returned rx \<Rightarrow> row_matches rx row
      | Raised e \<Rightarrow> False)"

text \<open>The first rows, the new frames and the columns of a table that may be \<^verbatim>\<open>None\<close>.\<close>

definition first_rows :: "dataframe option \<Rightarrow> py_dict list" where
  "first_rows df = (case df of None \<Rightarrow> [] | Some f \<Rightarrow> take 5 (to_dict_records f))"

definition head_frames :: "dataframe option \<Rightarrow> dataframe list" where
  "head_frames df = (case df of None \<Rightarrow> [] | Some f \<Rightarrow> [head 5 f])"

definition columns_of :: "dataframe option \<Rightarrow> string list" where
  "columns_of df = (case df of None \<Rightarrow> [] | Some f \<Rightarrow> columns f)"

section \<open>Scenarios\<close>

text \<open>
  Three small tables, at the references 0, 1 and 2, and the analysis of the material
  code \<^verbatim>\<open>M1\<close>: the first and the third sales row match (the third up to case), the
  order is that of the table, and the missing unit of the third row is kept as it is.
\<close>

definition scenario :: heap where
  "scenario =
     [\<lparr>columns = [''MATNR'', ''KWMENG'', ''VRKME''],
       rows = [[PyStr ''M1'', PyInt 10, PyStr ''EA''], [PyStr ''M2'', PyInt 4, PyStr ''EA''],
               [PyStr ''m10'', PyInt 3, NaN]]\<rparr>,
      \<lparr>columns = [''AUFNR'', ''PLNBEZ''], rows = [[PyStr ''P1'', PyStr ''M1'']]\<rparr>,
      \<lparr>columns = [''AUFNR'', ''MATNR'', ''BDMNG''],
       rows = [[PyStr ''P1'', PyStr ''M1'', PyInt 5]]\<rparr>]"

definition scenario_M1 :: analysis where
  "scenario_M1 =
     [(''sales'',
        \<lparr>count = 2,
         data = [[(''MATNR'', PyStr ''M1''), (''KWMENG'', PyInt 10), (''VRKME'', PyStr ''EA'')],
                 [(''MATNR'', PyStr ''m10''), (''KWMENG'', PyInt 3), (''VRKME'', NaN)]]\<rparr>),
      (''production'',
        \<lparr>count = 1, data = [[(''AUFNR'', PyStr ''P1''), (''PLNBEZ'', PyStr ''M1'')]]\<rparr>),
      (''reservations'',
        \<lparr>count = 1,
         data = [[(''AUFNR'', PyStr ''P1''), (''MATNR'', PyStr ''M1''), (''BDMNG'', PyInt 5)]]\<rparr>)]"

text \<open>A table of two text columns whose second row is blank in the spreadsheet.\<close>

definition blank_row_table :: heap where
  "blank_row_table =
     [\<lparr>columns = [''MATNR'', ''VRKME''], rows = [[PyStr ''M1'', PyStr ''EA''], [NaN, NaN]]\<rparr>]"


section \<open>Properties of the pandas calls\<close>

text \<open>
  In the lemmas and theorems \<open>lib\<close> is the parameter \<open>re_other\<close>: each holds for every
  \<open>lib\<close>, that is, whatever \<^verbatim>\<open>re.compile\<close> does with the patterns that are not written out.
\<close>

lemma all_returned_map:
  "all_returned (map (\<lambda>x. Returned (g x)) xs) = Returned (map g xs)"
  by (induction xs) simp_all

lemma all_returned_raised:
  "xs \<noteq> [] \<Longrightarrow> all_returned (map (\<lambda>x. Raised e) xs) = Raised e"
  by (cases xs) simp_all

lemma filter_by_flags: "map fst (filter snd (zip xs (map Q xs))) = filter Q xs"
  by (induction xs) simp_all

lemma any_of_bools:
  "list_ex (\<lambda>c. c = PyBool True) (map (\<lambda>c. PyBool (P c)) row) = list_ex P row"
  by (induction row) simp_all

lemma rebuild_rows:
  assumes "list_all (\<lambda>r. length r = n) rs"
  shows "map (\<lambda>i. map (\<lambda>c. c ! i) (map (\<lambda>j. map (\<lambda>r. g (r ! j)) rs) [0..<n])) [0..<length rs]
         = map (map g) rs"
proof (rule nth_equalityI)
  show "length (map (\<lambda>i. map (\<lambda>c. c ! i) (map (\<lambda>j. map (\<lambda>r. g (r ! j)) rs) [0..<n])) [0..<length rs])
        = length (map (map g) rs)" by simp
next
  fix i assume "i < length (map (\<lambda>i. map (\<lambda>c. c ! i) (map (\<lambda>j. map (\<lambda>r. g (r ! j)) rs) [0..<n])) [0..<length rs])"
  then have i: "i < length rs" by simp
  with assms have len: "length (rs ! i) = n" by (simp add: list_all_length)
  have "map (\<lambda>j. g (rs ! i ! j)) [0..<n] = map g (rs ! i)"
    using len by (intro nth_equalityI) simp_all
  with i show "map (\<lambda>i. map (\<lambda>c. c ! i) (map (\<lambda>j. map (\<lambda>r. g (r ! j)) rs) [0..<n])) [0..<length rs] ! i
        = map (map g) rs ! i"
    by (simp add: comp_def)
qed

lemma apply_contains_returned:
  assumes wf: "wf_frame df" and ne: "rows df \<noteq> []" "columns df \<noteq> []"
    and c: "re_compile lib t = Returned rx"
  shows "df_apply (str_contains lib t) (astype_str df)
         = Returned (df\<lparr>rows := map (map (\<lambda>c. PyBool (rx (py_str c)))) (rows df)\<rparr>)"
proof -
  let ?n = "length (columns df)"
  have col: "\<And>j. j < ?n \<Longrightarrow> column j (astype_str df) = map (\<lambda>r. PyStr (py_str (r ! j))) (rows df)"
    using wf by (auto simp: column_def astype_str_def wf_frame_def list_all_iff)
  have "map (\<lambda>j. str_contains lib t (column j (astype_str df))) [0..<?n]
        = map (\<lambda>j. Returned (map (\<lambda>r. PyBool (rx (py_str (r ! j)))) (rows df))) [0..<?n]"
    using c col by (simp add: str_contains_def comp_def)
  then have "all_returned (map (\<lambda>j. str_contains lib t (column j (astype_str df))) [0..<?n])
        = all_returned (map (\<lambda>j. Returned (map (\<lambda>r. PyBool (rx (py_str (r ! j)))) (rows df))) [0..<?n])"
    by (rule arg_cong)
  then have "all_returned (map (\<lambda>j. str_contains lib t (column j (astype_str df))) [0..<?n])
        = Returned (map (\<lambda>j. map (\<lambda>r. PyBool (rx (py_str (r ! j)))) (rows df)) [0..<?n])"
    by (simp only: all_returned_map)
  moreover have "map (\<lambda>i. map (\<lambda>c. c ! i) (map (\<lambda>j. map (\<lambda>r. PyBool (rx (py_str (r ! j)))) (rows df)) [0..<?n])) [0..<length (rows df)]
     = map (map (\<lambda>c. PyBool (rx (py_str c)))) (rows df)"
    using wf unfolding wf_frame_def by (rule rebuild_rows)
  ultimately show ?thesis using ne
    by (simp add: df_apply_def astype_str_def)
qed

lemma apply_contains_not_returned:
  assumes ne: "rows df \<noteq> []" "columns df \<noteq> []"
  shows "re_compile lib t = Raised e \<Longrightarrow> df_apply (str_contains lib t) (astype_str df) = Raised e"
  using ne
  by (simp add: df_apply_def astype_str_def str_contains_def all_returned_raised)

lemma apply_contains_empty:
  "rows df = [] \<or> columns df = [] \<Longrightarrow> df_apply (str_contains lib t) (astype_str df) = Returned (astype_str df)"
  by (auto simp: df_apply_def astype_str_def)

lemma selected_rows_wf:
  assumes wf: "wf_frame df"
  shows "selected_rows lib t df =
    (if rows df = [] \<or> columns df = [] then Returned (df\<lparr>rows := []\<rparr>)
     else case re_compile lib t of
            Returned r \<Rightarrow> Returned (df\<lparr>rows := filter (row_matches r) (rows df)\<rparr>)
          | Raised e \<Rightarrow> Raised e)"
proof (cases "rows df = [] \<or> columns df = []")
  case True
  have "map fst (filter snd (zip (rows df) (map (\<lambda>r. list_ex (\<lambda>c. c = PyBool True) r) (map (map (\<lambda>c. PyStr (py_str c))) (rows df))))) = []"
  proof (cases "rows df = []")
    case True then show ?thesis by simp
  next
    case False
    with True have "columns df = []" by simp
    with wf have "\<forall>r\<in>set (rows df). r = []" by (simp add: wf_frame_def list_all_iff)
    then have "map (\<lambda>r. list_ex (\<lambda>c. c = PyBool True) r) (map (map (\<lambda>c. PyStr (py_str c))) (rows df)) = map (\<lambda>r. False) (rows df)"
      by auto
    then show ?thesis by (simp add: filter_by_flags)
  qed
  moreover have "selected_rows lib t df = Returned (getitem_mask df (any_axis1 (astype_str df)))"
    by (simp add: selected_rows_def apply_contains_empty[OF True])
  ultimately show ?thesis using True
    by (simp add: getitem_mask_def any_axis1_def astype_str_def)
next
  case False
  then have ne: "rows df \<noteq> []" "columns df \<noteq> []" by simp_all
  show ?thesis
  proof (cases "re_compile lib t")
    case (Returned r)
    have eq: "list_ex (\<lambda>c. c = PyBool True) \<circ> map (\<lambda>c. PyBool (r (py_str c)))
          = row_matches r"
      by (simp add: fun_eq_iff any_of_bools row_matches_def)
    from Returned False show ?thesis
      by (simp add: selected_rows_def apply_contains_returned[OF wf ne Returned]
            getitem_mask_def any_axis1_def filter_by_flags eq)
  next
    case (Raised e)
    with False show ?thesis by (simp add: selected_rows_def apply_contains_not_returned[OF ne Raised])
  qed
qed

lemma selected_rows_returned:
  assumes wf: "wf_frame df" and sel: "selected_rows lib t df = Returned d"
  shows "d = df\<lparr>rows := filter (row_selected lib t) (rows df)\<rparr>"
proof (cases "rows df = [] \<or> columns df = []")
  case True
  have "filter (row_selected lib t) (rows df) = []"
  proof (cases "rows df = []")
    case True then show ?thesis by simp
  next
    case False
    with True have "columns df = []" by simp
    with wf have "\<forall>r\<in>set (rows df). r = []" by (simp add: wf_frame_def list_all_iff)
    then have "\<forall>r\<in>set (rows df). \<not> row_selected lib t r"
      by (auto simp: row_selected_def row_matches_def split: outcome.splits)
    then show ?thesis by simp
  qed
  with True sel show ?thesis by (simp add: selected_rows_wf[OF wf])
next
  case False
  with sel show ?thesis
    by (cases "re_compile lib t") (auto simp: selected_rows_wf[OF wf] row_selected_def[abs_def])
qed

section \<open>Patterns without special characters\<close>

lemma match_here_literal:
  "match_here (map (\<lambda>c. Lit (lower c)) t) s = prefix (map lower t) (map lower s)"
  by (induction t arbitrary: s) (case_tac s; auto)+

lemma re_search_literal:
  "re_search (map (\<lambda>c. Lit (lower c)) t) s = sublist (map lower t) (map lower s)"
proof (induction s)
  case Nil
  show ?case by (cases t) simp_all
next
  case (Cons d ds)
  show ?case
  proof (cases t)
    case Nil
    then show ?thesis by simp
  next
    case (Cons c cs)
    have "match_here (map (\<lambda>c. Lit (lower c)) t) (d # ds) = prefix (map lower t) (map lower (d # ds))"
      by (rule match_here_literal)
    with Cons Cons.IH show ?thesis by (simp add: sublist_Cons_right) 
  qed
qed

lemma parse_atom_ordinary:
  "list_all (\<lambda>c. c \<notin> set special_chars) t \<Longrightarrow> map parse_atom t = map (\<lambda>c. Lit (lower c)) t"
  by (induction t) (auto simp: parse_atom_def special_chars_def)

lemma re_compile_literal:
  assumes "list_all (\<lambda>c. c \<notin> set special_chars) t"
  shows "re_compile lib t = Returned (re_search (map (\<lambda>c. Lit (lower c)) t))"
proof (cases t)
  case Nil
  then show ?thesis by simp
next
  case (Cons c cs)
  from assms Cons have "c \<notin> set repeat_chars"
    by (auto simp: special_chars_def repeat_chars_def)
  moreover from assms have "list_all ordinary_or_dot t"
    by (induction t) (auto simp: ordinary_or_dot_def)
  ultimately have "re_compile lib t = Returned (re_search (map parse_atom t))"
    using Cons by simp
  then show ?thesis by (simp only: parse_atom_ordinary[OF assms])
qed

section \<open>The filter on the heap\<close>

lemma material_rows_eq:
  assumes "a < length h"
  shows "material_rows lib t a h = (ref_of h (selected_rows lib t (h ! a)), h @ new_frames lib t (h ! a))"
  using assms
  by (simp add: material_rows_def new_frame_def selected_rows_def new_frames_def ref_of_def
        nth_append split: outcome.splits)

lemma selected_frame:
  "selected_rows lib t df = Returned d \<Longrightarrow> (h @ new_frames lib t df) ! (length h + 2) = d"
  by (auto simp: selected_rows_def new_frames_def nth_append split: outcome.splits)

lemma valid_ref_append: "valid_ref h a \<Longrightarrow> valid_ref (h @ xs) a"
  by (cases a) (simp_all add: valid_ref_def)

lemma frame_at_append: "valid_ref h a \<Longrightarrow> frame_at (h @ xs) a = frame_at h a"
  by (cases a) (simp_all add: valid_ref_def frame_at_def nth_append)

lemma wf_ref_valid: "wf_ref h a \<Longrightarrow> valid_ref h a"
  by (cases a) (simp_all add: wf_ref_def valid_ref_def)

lemma table_analysis_eq:
  assumes "valid_ref h a"
  shows "table_analysis lib key t a ad h
         = (table_result lib key t (frame_at h a) ad, h @ table_frames lib t (frame_at h a))"
proof (cases a)
  case None
  then show ?thesis
    by (simp add: table_analysis_def table_result_def table_frames_def frame_at_def)
next
  case (Some r)
  with assms have r: "r < length h" by (simp add: valid_ref_def)
  show ?thesis
  proof (cases "selected_rows lib t (h ! r)")
    case (Returned d)
    with Some r selected_frame[OF Returned, of h] show ?thesis
      by (simp add: table_analysis_def table_result_def table_frames_def frame_at_def
            material_rows_eq ref_of_def)
  next
    case (Raised e)
    with Some r show ?thesis
      by (simp add: table_analysis_def table_result_def table_frames_def frame_at_def
            material_rows_eq ref_of_def)
  qed
qed

lemma analyze_material_data_eq:
  assumes s: "valid_ref h s" and p: "valid_ref h p" and r: "valid_ref h r"
  shows "\<exists>xs. analyze_material_data lib t s p r h
              = (analysis_of lib t (frame_at h s) (frame_at h p) (frame_at h r), h @ xs)"
proof -
  let ?h1 = "h @ table_frames lib t (frame_at h s)"
  let ?h2 = "h @ table_frames lib t (frame_at h s) @ table_frames lib t (frame_at h p)"
  have 1: "table_analysis lib ''sales'' t s ad h
           = (table_result lib ''sales'' t (frame_at h s) ad, ?h1)" for ad
    by (rule table_analysis_eq[OF s])
  have 2: "table_analysis lib ''production'' t p ad ?h1
           = (table_result lib ''production'' t (frame_at h p) ad, ?h2)" for ad
    by (simp add: table_analysis_eq valid_ref_append[OF p] frame_at_append[OF p])
  have r2: "valid_ref ?h2 r"
    by (rule valid_ref_append[OF r])
  have f2: "frame_at ?h2 r = frame_at h r"
    using frame_at_append[OF r, of "table_frames lib t (frame_at h s) @ table_frames lib t (frame_at h p)"]
    by simp
  have 3: "table_analysis lib ''reservations'' t r ad ?h2
           = (table_result lib ''reservations'' t (frame_at h r) ad,
              h @ table_frames lib t (frame_at h s) @ table_frames lib t (frame_at h p)
                @ table_frames lib t (frame_at h r))" for ad
    by (simp add: table_analysis_eq[OF r2] f2)
  show ?thesis
    by (simp add: analyze_material_data_def and_then_def analysis_of_def 1 2 3
          split: outcome.splits)
qed

lemma table_entry_count: "count (table_entry d) = length (data (table_entry d))"
  by (simp add: table_entry_def to_dict_records_def)

lemma table_entry_data: "data (table_entry d) = to_dict_records d"
  by (simp add: table_entry_def to_dict_records_def)

lemma table_analysis_counts:
  assumes "table_analysis lib key t df ad h = (Returned ad', h')"
    and "\<And>k e. map_of ad k = Some e \<Longrightarrow> count e = length (data e)"
    and "map_of ad' k = Some e"
  shows "count e = length (data e)"
  using assms
  by (auto simp: table_analysis_def update_conv' table_entry_count
      split: option.splits prod.splits outcome.splits if_splits)

lemma analysis_of_get:
  assumes "analysis_of lib t s p r = Returned ad"
  shows "map_of ad ''sales'' = entry_for lib t s"
    and "map_of ad ''production'' = entry_for lib t p"
    and "map_of ad ''reservations'' = entry_for lib t r"
  using assms
  by (auto simp: analysis_of_def table_result_def update_conv'
      split: option.splits outcome.splits)

lemma analysis_of_returned:
  assumes "analysis_of lib t s p r = Returned ad" and "df \<in> {s, p, r}" and "df = Some f"
  shows "\<exists>d. selected_rows lib t f = Returned d"
  using assms
  by (auto simp: analysis_of_def table_result_def split: option.splits outcome.splits)

lemma scenario_M1_run:
  "fst (analyze_material_data lib ''M1'' (Some 0) (Some 1) (Some 2) scenario) = Returned scenario_M1"
  by code_simp

text \<open>
  On every pattern that compiles the filter returns an analysis, so the theorems that
  speak of a returned analysis speak of all these tokens (those of ordinary characters
  and dots among them).
\<close>

lemma apply_contains_compiled:
  assumes "re_compile lib t = Returned rx"
  shows "\<exists>b. df_apply (str_contains lib t) df = Returned b"
proof -
  have "map (\<lambda>j. str_contains lib t (column j df)) [0..<length (columns df)]
        = map (\<lambda>j. Returned (map (contains_cell rx) (column j df))) [0..<length (columns df)]"
    using assms by (simp add: str_contains_def)
  then have "all_returned (map (\<lambda>j. str_contains lib t (column j df)) [0..<length (columns df)])
        = Returned (map (\<lambda>j. map (contains_cell rx) (column j df)) [0..<length (columns df)])"
    by (simp only: all_returned_map)
  then show ?thesis by (simp add: df_apply_def)
qed

lemma selected_rows_compiled:
  assumes "re_compile lib t = Returned rx"
  shows "\<exists>d. selected_rows lib t df = Returned d"
  using apply_contains_compiled[OF assms, of "astype_str df"]
  by (auto simp: selected_rows_def)

lemma returns_when_pattern_compiles:
  assumes c: "re_compile lib t = Returned rx"
    and refs: "valid_ref h sales_df" "valid_ref h production_df" "valid_ref h reservations_df"
  shows "\<exists>ad h'. analyze_material_data lib t sales_df production_df reservations_df h = (Returned ad, h')"
proof -
  have tr: "\<exists>ad'. table_result lib key t df ad = Returned ad'" for key df ad
  proof (cases df)
    case None
    then show ?thesis by (simp add: table_result_def)
  next
    case (Some f)
    from selected_rows_compiled[OF c, of f] obtain d where "selected_rows lib t f = Returned d" ..
    with Some show ?thesis by (simp add: table_result_def)
  qed
  have "\<exists>ad. analysis_of lib t s p r = Returned ad" for s p r
  proof -
    from tr obtain ad1 where 1: "table_result lib ''sales'' t s [] = Returned ad1" by blast
    from tr obtain ad2 where 2: "table_result lib ''production'' t p ad1 = Returned ad2" by blast
    from tr obtain ad3 where 3: "table_result lib ''reservations'' t r ad2 = Returned ad3" by blast
    from 1 2 3 show ?thesis by (simp add: analysis_of_def)
  qed
  with analyze_material_data_eq[OF refs, of lib t] show ?thesis by metis
qed

section \<open>Rows and their dicts\<close>

lemma literal_token_selects_by_substring:
  assumes "list_all (\<lambda>c. c \<notin> set special_chars) t"
  shows "row_selected lib t row = list_ex (\<lambda>c. contains_ignoring_case t (py_str c)) row"
  by (simp add: row_selected_def row_matches_def re_compile_literal[OF assms]
      re_search_literal contains_ignoring_case_def)

lemma dict_of_distinct_aux:
  "distinct (map fst (acc @ kvs)) \<Longrightarrow>
   fold (\<lambda>kv d. AList.update (fst kv) (snd kv) d) kvs acc = acc @ kvs"
proof (induction kvs arbitrary: acc)
  case Nil
  then show ?case by simp
next
  case (Cons kv kvs)
  from Cons.prems have "fst kv \<notin> fst ` set acc" by auto
  then have "AList.update (fst kv) (snd kv) acc = acc @ [kv]"
    by (induction acc) auto
  with Cons.IH[of "acc @ [kv]"] Cons.prems show ?case by simp
qed

lemma record_of_distinct:
  "distinct cols \<Longrightarrow> length r = length cols \<Longrightarrow> record_of cols r = zip cols r"
  using dict_of_distinct_aux[of "[]" "zip cols r"]
  by (simp add: record_of_def dict_of_def)

lemma record_of_inj:
  assumes "distinct cols" "length r = length cols" "length r' = length cols"
    and "record_of cols r = record_of cols r'"
  shows "r = r'"
proof -
  from assms have "zip cols r = zip cols r'" by (simp add: record_of_distinct)
  then have "map snd (zip cols r) = map snd (zip cols r')" by simp
  with assms(2,3) show ?thesis by simp
qed

section \<open>The prompts on the heap\<close>

lemma to_dict_records_head:
  "to_dict_records (head n df) = take n (to_dict_records df)"
  by (simp add: to_dict_records_def head_def take_map)

lemma head5_records_eq:
  "head5_records a h = (take 5 (to_dict_records (h ! a)), h @ [head 5 (h ! a)])"
  by (simp add: head5_records_def new_frame_def to_dict_records_head)

lemma sample_or_empty_eq:
  "sample_or_empty a h = (first_rows (frame_at h a), h @ head_frames (frame_at h a))"
  by (cases a) (simp_all add: sample_or_empty_def head5_records_eq first_rows_def
      head_frames_def frame_at_def)

lemma columns_list_eq: "columns_list a h = columns_of (frame_at h a)"
  by (cases a) (simp_all add: columns_list_def columns_of_def frame_at_def)

lemma create_analysis_prompt_eq:
  assumes s: "valid_ref h s" and p: "valid_ref h p" and r: "valid_ref h r"
  shows "create_analysis_prompt mc ad s p r h
         = (analysis_prompt_text mc ad (columns_of (frame_at h s)) (columns_of (frame_at h p))
              (columns_of (frame_at h r)) (first_rows (frame_at h s)) (first_rows (frame_at h p))
              (first_rows (frame_at h r)),
            h @ head_frames (frame_at h s) @ head_frames (frame_at h p)
              @ head_frames (frame_at h r))"
proof -
  have a: "frame_at (h @ xs) s = frame_at h s" "frame_at (h @ xs) p = frame_at h p"
    "frame_at (h @ xs) r = frame_at h r" for xs
    by (rule frame_at_append[OF s] frame_at_append[OF p] frame_at_append[OF r])+
  have b: "frame_at (h @ xs @ ys) p = frame_at h p" "frame_at (h @ xs @ ys) r = frame_at h r"
    "frame_at (h @ xs @ ys) s = frame_at h s" for xs ys
    using a[of "xs @ ys"] by simp_all
  have c: "frame_at (h @ xs @ ys @ zs) p = frame_at h p" "frame_at (h @ xs @ ys @ zs) r = frame_at h r"
    "frame_at (h @ xs @ ys @ zs) s = frame_at h s" for xs ys zs
    using a[of "xs @ ys @ zs"] by simp_all
  show ?thesis
    by (simp add: create_analysis_prompt_def sample_or_empty_eq columns_list_eq a b c)
qed

lemma general_prompt_eq:
  assumes s: "a < length h" and p: "b < length h" and r: "c < length h"
  shows "general_prompt q a b c h
         = (general_prompt_text q
              (length (rows (h ! a))) (length (columns (h ! a))) (columns (h ! a))
              (take 5 (to_dict_records (h ! a)))
              (length (rows (h ! b))) (length (columns (h ! b))) (columns (h ! b))
              (take 5 (to_dict_records (h ! b)))
              (length (rows (h ! c))) (length (columns (h ! c))) (columns (h ! c))
              (take 5 (to_dict_records (h ! c))),
            h @ [head 5 (h ! a), head 5 (h ! b), head 5 (h ! c)])"
  using assms by (simp add: general_prompt_def head5_records_eq nth_append)

section \<open>The rows the filter returns\<close>

lemma analysis_entry:
  assumes run: "analyze_material_data lib t sales_df production_df reservations_df h = (Returned ad, h')"
    and ok: "wf_ref h sales_df" "wf_ref h production_df" "wf_ref h reservations_df"
    and tab: "(key, Some a) \<in> set [(''sales'', sales_df), (''production'', production_df),
                                  (''reservations'', reservations_df)]"
  shows "\<exists>e. map_of ad key = Some e
           \<and> data e = map (record_of (columns (h ! a))) (filter (row_selected lib t) (rows (h ! a)))"
proof -
  let ?s = "frame_at h sales_df" and ?p = "frame_at h production_df"
    and ?r = "frame_at h reservations_df"
  from analyze_material_data_eq[OF ok[THEN wf_ref_valid], of lib t] run
  have an: "analysis_of lib t ?s ?p ?r = Returned ad" by auto
  from tab have df: "Some a \<in> {sales_df, production_df, reservations_df}" by auto
  with ok have a: "a < length h" and wf: "wf_frame (h ! a)"
    by (auto simp: wf_ref_def split: option.splits)
  from df have "Some (h ! a) \<in> {?s, ?p, ?r}"
    by (auto simp: frame_at_def)
  from analysis_of_returned[OF an this refl] obtain d where d: "selected_rows lib t (h ! a) = Returned d"
    by blast
  from tab have "map_of ad key = entry_for lib t (Some (h ! a))"
    using analysis_of_get[OF an] by (auto simp: frame_at_def)
  with d have e: "map_of ad key = Some (table_entry d)" by simp
  have "data (table_entry d)
        = map (record_of (columns (h ! a))) (filter (row_selected lib t) (rows (h ! a)))"
    by (simp add: table_entry_data selected_rows_returned[OF wf d] to_dict_records_def)
  with e show ?thesis by simp
qed

text \<open>
  For a token without special characters the filter is the substring test: a row of a
  table with distinct column labels is among the returned rows exactly when the text
  of one of its cells contains the token, case ignored.
\<close>

lemma literal_token_rows:
  assumes run: "analyze_material_data lib t sales_df production_df reservations_df h = (Returned ad, h')"
    and ok: "wf_ref h sales_df" "wf_ref h production_df" "wf_ref h reservations_df"
    and tab: "(key, Some a) \<in> set [(''sales'', sales_df), (''production'', production_df),
                                  (''reservations'', reservations_df)]"
    and lit: "list_all (\<lambda>c. c \<notin> set special_chars) t"
    and dist: "distinct (columns (h ! a))"
    and row: "row \<in> set (rows (h ! a))"
  shows "\<exists>e. map_of ad key = Some e
           \<and> (record_of (columns (h ! a)) row \<in> set (data e)
                \<longleftrightarrow> list_ex (\<lambda>c. contains_ignoring_case t (py_str c)) row)"
proof -
  from analysis_entry[OF run ok tab] obtain e where
    e: "map_of ad key = Some e"
    and d: "data e = map (record_of (columns (h ! a))) (filter (row_selected lib t) (rows (h ! a)))"
    by blast
  from tab ok have wf: "wf_frame (h ! a)"
    by (auto simp: wf_ref_def)
  then have len: "length r = length (columns (h ! a))" if "r \<in> set (rows (h ! a))" for r
    using that by (simp add: wf_frame_def list_all_iff)
  have "record_of (columns (h ! a)) row \<in> set (data e) \<longleftrightarrow> row_selected lib t row"
  proof
    assume "record_of (columns (h ! a)) row \<in> set (data e)"
    then obtain r where r: "r \<in> set (rows (h ! a))" "row_selected lib t r"
      and eq: "record_of (columns (h ! a)) r = record_of (columns (h ! a)) row"
      unfolding d by auto
    from record_of_inj[OF dist len[OF r(1)] len[OF row] eq] r(2)
    show "row_selected lib t row" by simp
  next
    assume "row_selected lib t row"
    with row show "record_of (columns (h ! a)) row \<in> set (data e)"
      unfolding d by auto
  qed
  with e show ?thesis
    by (auto simp: literal_token_selects_by_substring[OF lit])
qed

section \<open>The claims\<close>

text \<open>
  Claim C1 says that a row is returned exactly when the text of one of its cells
  contains the token as a substring, case ignored. The program hands the token to
  \<^verbatim>\<open>str.contains\<close> as a regular expression: for the material code \<^verbatim>\<open>M.1\<close> the dot
  matches any character, and the row of the material \<^verbatim>\<open>MX1\<close> is returned although no
  cell of it contains \<^verbatim>\<open>M.1\<close>.
\<close>

theorem dot_in_token_matches_any_character:
  "(\<forall>lib. fst (analyze_material_data lib ''M.1'' (Some 0) None None
                  [\<lparr>columns = [''MATNR''], rows = [[PyStr ''MX1'']]\<rparr>])
          = Returned [(''sales'', \<lparr>count = 1, data = [[(''MATNR'', PyStr ''MX1'')]]\<rparr>)])
   \<and> \<not> contains_ignoring_case ''M.1'' (py_str (PyStr ''MX1''))"
  by (intro conjI allI; code_simp)

text \<open>
  Claim C2. For every token and every combination of provided tables, each entry of
  the result of \<^verbatim>\<open>analyze_material_data\<close> has a count equal to the length of its list
  of rows.
\<close>

theorem count_equals_number_of_rows:
  assumes run: "analyze_material_data lib t sales_df production_df reservations_df h = (Returned ad, h')"
    and e: "map_of ad key = Some e"
  shows "count e = length (data e)"
proof -
  from run obtain ad1 h1 ad2 h2 where
    1: "table_analysis lib ''sales'' t sales_df [] h = (Returned ad1, h1)" and
    2: "table_analysis lib ''production'' t production_df ad1 h1 = (Returned ad2, h2)" and
    3: "table_analysis lib ''reservations'' t reservations_df ad2 h2 = (Returned ad, h')"
    by (auto simp: analyze_material_data_def and_then_def split: prod.splits outcome.splits)
  have i1: "count x = length (data x)" if "map_of ad1 k = Some x" for k x
    using table_analysis_counts[OF 1 _ that] by simp
  have i2: "count x = length (data x)" if "map_of ad2 k = Some x" for k x
    using table_analysis_counts[OF 2 i1 that] .
  show ?thesis
    using table_analysis_counts[OF 3 i2 e] .
qed

text \<open>The scenario: the entry for the sales table holds two rows and the count 2.\<close>

theorem count_equals_number_of_rows_witness:
  "(\<forall>lib. fst (analyze_material_data lib ''M1'' (Some 0) (Some 1) (Some 2) scenario)
          = Returned scenario_M1)
   \<and> (\<exists>e. map_of scenario_M1 ''sales'' = Some e \<and> count e = length (data e) \<and> count e = 2)"
proof -
  have run: "analyze_material_data lib ''M1'' (Some 0) (Some 1) (Some 2) scenario
             = (Returned scenario_M1,
                snd (analyze_material_data lib ''M1'' (Some 0) (Some 1) (Some 2) scenario))"
    for lib :: "string \<Rightarrow> pattern outcome"
    using scenario_M1_run[of lib] by (metis prod.collapse)
  obtain e where e: "map_of scenario_M1 ''sales'' = Some e" and c: "count e = 2"
    by (simp add: scenario_M1_def)
  from count_equals_number_of_rows[OF run e] e c scenario_M1_run show ?thesis by blast
qed


text \<open>
  Claim C4 says that a row whose cells are all missing is never returned for a token
  that is not empty. The text of a missing cell is \<^verbatim>\<open>nan\<close>, and the token \<^verbatim>\<open>nan\<close> (as
  well as \<^verbatim>\<open>a\<close>, \<^verbatim>\<open>n\<close>, \<^verbatim>\<open>na\<close>, \<^verbatim>\<open>an\<close>) is found in it: the blank row is returned,
  and it is the only row returned.
\<close>

theorem token_nan_returns_blank_row:
  "(\<forall>lib. fst (analyze_material_data lib ''nan'' (Some 0) None None blank_row_table)
          = Returned [(''sales'',
              \<lparr>count = 1, data = [[(''MATNR'', NaN), (''VRKME'', NaN)]]\<rparr>)])
   \<and> list_all isna [NaN, NaN]"
  by (intro conjI allI; code_simp)

text \<open>
  Claim C5 says that the filter never raises. The token \<^verbatim>\<open>*\<close> is no regular
  expression: \<^verbatim>\<open>re.compile\<close> raises \<^verbatim>\<open>re.error\<close> on the first table that has a row and
  a column, and \<^verbatim>\<open>analyze_material_data\<close> has no handler for it.
\<close>

theorem star_token_raises:
  "\<forall>lib. fst (analyze_material_data lib ''*'' (Some 0) (Some 1) (Some 2) scenario)
         = Raised (re_error ''nothing to repeat at position 0'')"
  by (intro allI; code_simp)

text \<open>
  Claim C6. Calling the filter twice with the same tables and token gives the same
  result, whatever it is (an analysis or an exception), and the first call leaves
  every frame that existed before it as it was, the three tables among them.
\<close>

theorem filter_twice_same_result:
  assumes refs: "valid_ref h sales_df" "valid_ref h production_df" "valid_ref h reservations_df"
    and first: "analyze_material_data lib t sales_df production_df reservations_df h = (res, h1)"
  shows "fst (analyze_material_data lib t sales_df production_df reservations_df h1) = res
         \<and> take (length h) h1 = h
         \<and> frame_at h1 sales_df = frame_at h sales_df
         \<and> frame_at h1 production_df = frame_at h production_df
         \<and> frame_at h1 reservations_df = frame_at h reservations_df"
proof -
  from analyze_material_data_eq[OF refs, of lib t] first obtain xs where
    res: "res = analysis_of lib t (frame_at h sales_df) (frame_at h production_df)
                  (frame_at h reservations_df)"
    and h1: "h1 = h @ xs" by auto
  have same: "frame_at h1 sales_df = frame_at h sales_df"
    "frame_at h1 production_df = frame_at h production_df"
    "frame_at h1 reservations_df = frame_at h reservations_df"
    unfolding h1 by (rule frame_at_append[OF refs(1)] frame_at_append[OF refs(2)]
        frame_at_append[OF refs(3)])+
  have refs1: "valid_ref h1 sales_df" "valid_ref h1 production_df" "valid_ref h1 reservations_df"
    unfolding h1 by (rule valid_ref_append[OF refs(1)] valid_ref_append[OF refs(2)]
        valid_ref_append[OF refs(3)])+
  from analyze_material_data_eq[OF refs1, of lib t]
  have "fst (analyze_material_data lib t sales_df production_df reservations_df h1) = res"
    by (auto simp: same res)
  with same h1 show ?thesis by simp
qed

text \<open>The scenario: the second call, on the heap the first call left, gives the same analysis.\<close>

theorem filter_twice_same_result_witness:
  "valid_ref scenario (Some 0) \<and> valid_ref scenario (Some 1) \<and> valid_ref scenario (Some 2)
   \<and> (\<forall>lib.
         fst (analyze_material_data lib ''M1'' (Some 0) (Some 1) (Some 2)
                (snd (analyze_material_data lib ''M1'' (Some 0) (Some 1) (Some 2) scenario)))
         = Returned scenario_M1
         \<and> take 3 (snd (analyze_material_data lib ''M1'' (Some 0) (Some 1) (Some 2) scenario))
             = scenario)"
proof -
  have v: "valid_ref scenario (Some 0)" "valid_ref scenario (Some 1)" "valid_ref scenario (Some 2)"
    by (simp_all add: valid_ref_def scenario_def)
  have first: "analyze_material_data lib ''M1'' (Some 0) (Some 1) (Some 2) scenario
             = (Returned scenario_M1,
                snd (analyze_material_data lib ''M1'' (Some 0) (Some 1) (Some 2) scenario))"
    for lib :: "string \<Rightarrow> pattern outcome"
    using scenario_M1_run[of lib] by (metis prod.collapse)
  have len: "length scenario = 3" by (simp add: scenario_def)
  from filter_twice_same_result[OF v first] v len show ?thesis by simp
qed

text \<open>
  Claim C7. Both prompts are functions of their inputs alone: for the same material
  code (or question), the same analysis and tables with the same content, the text is
  the same on any two heaps, so also in a second call after the first.
\<close>

theorem prompts_are_deterministic:
  assumes v1: "valid_ref h1 sales_df" "valid_ref h1 production_df" "valid_ref h1 reservations_df"
    and v2: "valid_ref h2 sales_df" "valid_ref h2 production_df" "valid_ref h2 reservations_df"
    and same: "frame_at h1 sales_df = frame_at h2 sales_df"
      "frame_at h1 production_df = frame_at h2 production_df"
      "frame_at h1 reservations_df = frame_at h2 reservations_df"
  shows "fst (create_analysis_prompt material_code analysis_data sales_df production_df
                reservations_df h1)
         = fst (create_analysis_prompt material_code analysis_data sales_df production_df
                  reservations_df h2)
       \<and> (\<forall>a b c. sales_df = Some a \<and> production_df = Some b \<and> reservations_df = Some c \<longrightarrow>
            fst (general_prompt user_query a b c h1) = fst (general_prompt user_query a b c h2))"
proof -
  have "fst (general_prompt user_query a b c h1) = fst (general_prompt user_query a b c h2)"
    if "sales_df = Some a" "production_df = Some b" "reservations_df = Some c" for a b c
  proof -
    from that v1 v2 have l: "a < length h1" "b < length h1" "c < length h1"
      "a < length h2" "b < length h2" "c < length h2"
      by (simp_all add: valid_ref_def)
    from that same have "h1 ! a = h2 ! a" "h1 ! b = h2 ! b" "h1 ! c = h2 ! c"
      by (simp_all add: frame_at_def)
    then show ?thesis
      by (simp add: general_prompt_eq l)
  qed
  then show ?thesis
    by (simp add: create_analysis_prompt_eq v1 v2 same)
qed

text \<open>The scenario: each prompt, composed a second time on the heap its first call left.\<close>

theorem prompts_are_deterministic_witness:
  "fst (create_analysis_prompt ''M1'' scenario_M1 (Some 0) (Some 1) (Some 2)
          (snd (create_analysis_prompt ''M1'' scenario_M1 (Some 0) (Some 1) (Some 2) scenario)))
   = fst (create_analysis_prompt ''M1'' scenario_M1 (Some 0) (Some 1) (Some 2) scenario)
   \<and> fst (general_prompt ''Which orders are late?'' 0 1 2
          (snd (general_prompt ''Which orders are late?'' 0 1 2 scenario)))
   = fst (general_prompt ''Which orders are late?'' 0 1 2 scenario)"
proof -
  have v: "valid_ref scenario (Some 0)" "valid_ref scenario (Some 1)" "valid_ref scenario (Some 2)"
    by (simp_all add: valid_ref_def scenario_def)
  have l: "0 < length scenario" "1 < length scenario" "2 < length scenario"
    by (simp_all add: scenario_def)
  let ?xs = "head_frames (frame_at scenario (Some 0)) @ head_frames (frame_at scenario (Some 1))
              @ head_frames (frame_at scenario (Some 2))"
  let ?ys = "[head 5 (scenario ! 0), head 5 (scenario ! 1), head 5 (scenario ! 2)]"
  have xs: "snd (create_analysis_prompt ''M1'' scenario_M1 (Some 0) (Some 1) (Some 2) scenario)
            = scenario @ ?xs"
    by (simp only: create_analysis_prompt_eq[OF v] snd_conv)
  have ys: "snd (general_prompt ''Which orders are late?'' 0 1 2 scenario) = scenario @ ?ys"
    by (simp only: general_prompt_eq[OF l] snd_conv)
  have 1: "fst (create_analysis_prompt ''M1'' scenario_M1 (Some 0) (Some 1) (Some 2) (scenario @ ?xs))
        = fst (create_analysis_prompt ''M1'' scenario_M1 (Some 0) (Some 1) (Some 2) scenario)"
    using prompts_are_deterministic[OF v[THEN valid_ref_append] v
        frame_at_append[OF v(1)] frame_at_append[OF v(2)] frame_at_append[OF v(3)]]
    by blast
  have 2: "fst (general_prompt ''Which orders are late?'' 0 1 2 (scenario @ ?ys))
        = fst (general_prompt ''Which orders are late?'' 0 1 2 scenario)"
    using prompts_are_deterministic[OF v[THEN valid_ref_append] v
        frame_at_append[OF v(1)] frame_at_append[OF v(2)] frame_at_append[OF v(3)]]
    by blast
  from 1 2 show ?thesis by (simp only: xs ys)
qed



text \<open>
  Claim C9. \<^verbatim>\<open>ask_llm_simple\<close> always returns a string: the fixed message when there is no
  client, the message with the error's text when the call raises, and the reply as it
  is otherwise.
\<close>

theorem ask_llm_simple_never_raises:
  "(\<exists>reply. ask_llm_simple proxy_client invoke prompt = Inr reply)
   \<and> (proxy_client = None \<longrightarrow>
        ask_llm_simple proxy_client invoke prompt
        = Inr ''GenAI Hub is not available. Please check your configuration.'')
   \<and> (\<forall>c e. proxy_client = Some c \<and> invoke c prompt = Inl e \<longrightarrow>
        ask_llm_simple proxy_client invoke prompt = Inr (''Error querying LLM: '' @ exn_str e))
   \<and> (\<forall>c response. proxy_client = Some c \<and> invoke c prompt = Inr response \<longrightarrow>
        ask_llm_simple proxy_client invoke prompt = Inr response)"
  by (auto simp: ask_llm_simple_def split: option.splits sum.splits)

text \<open>One call for each of the three cases.\<close>

theorem ask_llm_simple_never_raises_witness:
  "ask_llm_simple (None :: unit option) (\<lambda>c p. Inr ''fine'') ''hello''
     = Inr ''GenAI Hub is not available. Please check your configuration.''
   \<and> ask_llm_simple (Some ()) (\<lambda>c p. Inl (Exception ''quota exceeded'')) ''hello''
     = Inr ''Error querying LLM: quota exceeded''
   \<and> ask_llm_simple (Some ()) (\<lambda>c p. Inr (''echo '' @ p)) ''hello'' = Inr ''echo hello''"
  using ask_llm_simple_never_raises[of "None :: unit option" "\<lambda>c p. Inr ''fine''" "''hello''"]
    ask_llm_simple_never_raises[of "Some ()" "\<lambda>c p. Inl (Exception ''quota exceeded'')" "''hello''"]
    ask_llm_simple_never_raises[of "Some ()" "\<lambda>c p. Inr (''echo '' @ p)" "''hello''"]
  by simp

text \<open>
  Claim C10. The rows the filter returns for a table are the selected rows of that
  table, in the order of the table: a subsequence of its rows.
\<close>

theorem rows_keep_source_order:
  assumes run: "analyze_material_data lib t sales_df production_df reservations_df h = (Returned ad, h')"
    and ok: "wf_ref h sales_df" "wf_ref h production_df" "wf_ref h reservations_df"
    and tab: "(key, Some a) \<in> set [(''sales'', sales_df), (''production'', production_df),
                                  (''reservations'', reservations_df)]"
  shows "\<exists>e. map_of ad key = Some e
           \<and> data e = map (record_of (columns (h ! a))) (filter (row_selected lib t) (rows (h ! a)))
           \<and> subseq (data e) (to_dict_records (h ! a))"
proof -
  from analysis_entry[OF run ok tab] obtain e where
    e: "map_of ad key = Some e"
    and d: "data e = map (record_of (columns (h ! a))) (filter (row_selected lib t) (rows (h ! a)))"
    by blast
  have "subseq (map (record_of (columns (h ! a))) (filter (row_selected lib t) (rows (h ! a))))
          (map (record_of (columns (h ! a))) (rows (h ! a)))"
    by (intro subseq_map subseq_filter_left)
  with e d show ?thesis by (simp add: to_dict_records_def)
qed

text \<open>The scenario: of the three sales rows the first and the third are returned, in this order.\<close>

theorem rows_keep_source_order_witness:
  "wf_ref scenario (Some 0) \<and> wf_ref scenario (Some 1) \<and> wf_ref scenario (Some 2)
   \<and> (\<exists>e. map_of scenario_M1 ''sales'' = Some e
          \<and> (\<forall>lib. data e = map (record_of (columns (scenario ! 0)))
                                 (filter (row_selected lib ''M1'') (rows (scenario ! 0))))
          \<and> subseq (data e) (to_dict_records (scenario ! 0))
          \<and> data e = [[(''MATNR'', PyStr ''M1''), (''KWMENG'', PyInt 10), (''VRKME'', PyStr ''EA'')],
                       [(''MATNR'', PyStr ''m10''), (''KWMENG'', PyInt 3), (''VRKME'', NaN)]])"
proof -
  have w: "wf_ref scenario (Some 0)" "wf_ref scenario (Some 1)" "wf_ref scenario (Some 2)"
    by (simp_all add: wf_ref_def wf_frame_def scenario_def)
  have run: "analyze_material_data lib ''M1'' (Some 0) (Some 1) (Some 2) scenario
             = (Returned scenario_M1,
                snd (analyze_material_data lib ''M1'' (Some 0) (Some 1) (Some 2) scenario))"
    for lib :: "string \<Rightarrow> pattern outcome"
    using scenario_M1_run[of lib] by (metis prod.collapse)
  have tab: "(''sales'', Some 0) \<in> set [(''sales'', Some 0), (''production'', Some 1),
                                        (''reservations'', Some (2::nat))]"
    by simp
  obtain e where e: "map_of scenario_M1 ''sales'' = Some e"
    and d: "data e = [[(''MATNR'', PyStr ''M1''), (''KWMENG'', PyInt 10), (''VRKME'', PyStr ''EA'')],
                      [(''MATNR'', PyStr ''m10''), (''KWMENG'', PyInt 3), (''VRKME'', NaN)]]"
    by (simp add: scenario_M1_def)
  have sel: "data e = map (record_of (columns (scenario ! 0)))
                        (filter (row_selected lib ''M1'') (rows (scenario ! 0)))"
    and sub: "subseq (data e) (to_dict_records (scenario ! 0))"
    for lib :: "string \<Rightarrow> pattern outcome"
    using rows_keep_source_order[OF run[of lib] w tab] e by auto
  from e d sel sub w show ?thesis by blast
qed

end
